theory Spec2Isabelle
  imports Complex_Main
begin

section \<open>NIFTI-1 header tables (neuroimaging/data\_io/formats/nifti1.py)\<close>

text \<open>
  The Python exceptions that the modelled functions can raise. \<open>Nifti1FormatError\<close> is the
  class declared in nifti1.py (the specification calls it FormatError); \<open>KeyError\<close> is what a
  failed dict lookup raises (the specification calls the failed element-type lookup
  UnsupportedCodeError); \<open>IndexError\<close> and \<open>ValueError\<close> are raised by list indexing and by
  numpy (broadcasting, reductions of an empty array, \<open>int\<close> of a non-digit string).
\<close>

datatype error = Nifti1FormatError | KeyError | IndexError | ValueError

subsection \<open>Element-type codes\<close>

definition UBYTE :: int where "UBYTE = 2"
definition SHORT :: int where "SHORT = 4"
definition INTEGER :: int where "INTEGER = 8"
definition FLOAT :: int where "FLOAT = 16"
definition COMPLEX :: int where "COMPLEX = 32"
definition DOUBLE :: int where "DOUBLE = 64"
definition RGB :: int where "RGB = 128"
definition INT8 :: int where "INT8 = 256"
definition UINT16 :: int where "UINT16 = 512"
definition UINT32 :: int where "UINT32 = 768"
definition INT64 :: int where "INT64 = 1024"
definition UINT64 :: int where "UINT64 = 1280"
definition FLOAT128 :: int where "FLOAT128 = 1536"
definition COMPLEX128 :: int where "COMPLEX128 = 1792"
definition COMPLEX256 :: int where "COMPLEX256 = 2048"

text \<open>The numpy scalar types that occur as values of \<open>datatype2sctype\<close>.\<close>

datatype sctype =
  uint8 | int16 | int32 | float32 | complex64 | float64
  | int8 | uint16 | uint32 | int64 | uint64 | complex128

text \<open>
  A Python dict built from a list of pairs: a later pair with the same key replaces an
  earlier one.
\<close>

definition dict :: "('k \<times> 'v) list \<Rightarrow> ('k \<rightharpoonup> 'v)" where
  "dict ps = map_of (rev ps)"

text \<open>\<open>d[k]\<close>: the value, or KeyError.\<close>

definition getitem :: "('k \<rightharpoonup> 'v) \<Rightarrow> 'k \<Rightarrow> error + 'v" where
  "getitem d k = (case d k of None \<Rightarrow> Inl KeyError | Some v \<Rightarrow> Inr v)"

definition datatype2sctype_items :: "(int \<times> sctype) list" where
  "datatype2sctype_items =
    [(UBYTE, uint8),
     (SHORT, int16),
     (INTEGER, int32),
     (FLOAT, float32),
     (COMPLEX, complex64),
     (DOUBLE, float64),
     (INT8, int8),
     (UINT16, uint16),
     (UINT32, uint32),
     (INT64, int64),
     (UINT64, uint64),
     (COMPLEX128, complex128)]"

definition datatype2sctype :: "int \<rightharpoonup> sctype" where
  "datatype2sctype = dict datatype2sctype_items"

text \<open>\<open>sctype2datatype = dict([(v, k) for k, v in datatype2sctype.items()])\<close>\<close>

definition sctype2datatype :: "sctype \<rightharpoonup> int" where
  "sctype2datatype = dict (map (\<lambda>(k, v). (v, k)) datatype2sctype_items)"

subsection \<open>The header schema\<close>

definition HEADER_SIZE :: nat where "HEADER_SIZE = 348"

definition struct_formats :: "(string \<times> string) list" where
  "struct_formats =
    [(''sizeof_hdr'', ''i''),
     (''data_type'', ''10s''),
     (''db_name'', ''18s''),
     (''extents'', ''i''),
     (''session_error'', ''h''),
     (''regular'', ''c''),
     (''dim_info'', ''B''),
     (''dim'', ''8h''),
     (''intent_p1'', ''f''),
     (''intent_p2'', ''f''),
     (''intent_p3'', ''f''),
     (''intent_code'', ''h''),
     (''datatype'', ''h''),
     (''bitpix'', ''h''),
     (''slice_start'', ''h''),
     (''pixdim'', ''8f''),
     (''vox_offset'', ''f''),
     (''scl_slope'', ''f''),
     (''scl_inter'', ''f''),
     (''slice_end'', ''h''),
     (''slice_code'', ''B''),
     (''xyzt_units'', ''B''),
     (''cal_max'', ''f''),
     (''cal_min'', ''f''),
     (''slice_duration'', ''f''),
     (''toffset'', ''f''),
     (''glmax'', ''i''),
     (''glmin'', ''i''),
     (''descrip'', ''80s''),
     (''aux_file'', ''24s''),
     (''qform_code'', ''h''),
     (''sform_code'', ''h''),
     (''quatern_b'', ''f''),
     (''quatern_c'', ''f''),
     (''quatern_d'', ''f''),
     (''qoffset_x'', ''f''),
     (''qoffset_y'', ''f''),
     (''qoffset_z'', ''f''),
     (''srow_x'', ''4f''),
     (''srow_y'', ''4f''),
     (''srow_z'', ''4f''),
     (''intent_name'', ''16s''),
     (''magic'', ''4s''),
     (''qfac'', ''f'')]"

definition field_formats :: "string list" where
  "field_formats = map snd struct_formats"

text \<open>
  A layout descriptor is an optional decimal repeat count followed by one type character;
  \<open>_default_field_value\<close> takes it apart as \<open>fieldformat[:-1]\<close> and \<open>fieldformat[-1]\<close>.
\<close>

definition digit_val :: "char \<Rightarrow> nat option" where
  "digit_val c = map_of (zip ''0123456789'' [0, 1, 2, 3, 4, 5, 6, 7, 8, 9]) c"

text \<open>\<open>int(s)\<close> on a string of decimal digits; anything else is a ValueError.\<close>

fun int_digits :: "nat \<Rightarrow> string \<Rightarrow> error + nat" where
  "int_digits acc [] = Inr acc"
| "int_digits acc (c # cs) =
    (case digit_val c of None \<Rightarrow> Inl ValueError
     | Some d \<Rightarrow> int_digits (10 * acc + d) cs)"

definition py_int :: "string \<Rightarrow> error + nat" where
  "py_int s = (if s = [] then Inl ValueError else int_digits 0 s)"

definition format_count :: "string \<Rightarrow> error + nat" where
  "format_count fieldformat =
    (if butlast fieldformat = [] then Inr 1 else py_int (butlast fieldformat))"

text \<open>
  The byte width of one item of each type character used by the schema. The binary engine
  that packs the fields (binary.BinaryFormat, Python's \<open>struct\<close> module) is not part of
  the sources at hand; these are the standard sizes of \<open>struct\<close> with an explicit byte
  order, where no padding is inserted between fields.
\<close>

definition item_size :: "char \<Rightarrow> error + nat" where
  "item_size c =
    (if c = CHR ''s'' \<or> c = CHR ''c'' \<or> c = CHR ''B'' then Inr 1
     else if c = CHR ''h'' then Inr 2
     else if c = CHR ''i'' \<or> c = CHR ''f'' then Inr 4
     else Inl ValueError)"

definition calcsize :: "string \<Rightarrow> error + nat" where
  "calcsize fieldformat =
    (if fieldformat = [] then Inl ValueError
     else case format_count fieldformat of Inl e \<Rightarrow> Inl e
       | Inr n \<Rightarrow> (case item_size (last fieldformat) of Inl e \<Rightarrow> Inl e
           | Inr w \<Rightarrow> Inr (n * w)))"

text \<open>The total width of a list of descriptors: the first failure, or the sum.\<close>

fun total_size :: "string list \<Rightarrow> error + nat" where
  "total_size [] = Inr 0"
| "total_size (f # fs) =
    (case calcsize f of Inl e \<Rightarrow> Inl e
     | Inr w \<Rightarrow> (case total_size fs of Inl e \<Rightarrow> Inl e | Inr t \<Rightarrow> Inr (w + t)))"

section \<open>The header record and the Nifti1 object\<close>

text \<open>
  The header is a dict from field name to value. The record below has the fields that the
  modelled methods read or write; \<open>hdr_datatype\<close> is the field \<open>datatype\<close>. The values of
  an array field (\<open>'8h'\<close>, \<open>'8f'\<close>, \<open>'4f'\<close>) are Python lists; numbers decoded from \<open>'f'\<close>
  fields are taken as real numbers.
\<close>

record nifti_header =
  magic :: string
  hdr_datatype :: int
  dim :: "int list"
  pixdim :: "real list"
  scl_slope :: real
  scl_inter :: real
  qform_code :: int
  sform_code :: int
  quatern_b :: real
  quatern_c :: real
  quatern_d :: real
  qoffset_x :: real
  qoffset_y :: real
  qoffset_z :: real
  srow_x :: "real list"
  srow_y :: "real list"
  srow_z :: "real list"

text \<open>The two magic strings, \<open>'n+1\x00'\<close> and \<open>'ni1\x00'\<close>.\<close>

definition magic_single :: string where
  "magic_single = [CHR ''n'', CHR ''+'', CHR ''1'', CHR 0x00]"

definition magic_dual :: string where
  "magic_dual = [CHR ''n'', CHR ''i'', CHR ''1'', CHR 0x00]"

text \<open>
  The read branch of \<open>Nifti1.__init__\<close>, from the header that \<open>read_header\<close> has decoded
  (the decoder and the byte-order guess belong to the ancestor classes): the magic test,
  the element-type lookup and \<open>ndim\<close>. The result is \<open>(dtype, ndim)\<close>.
\<close>

definition init_read :: "nifti_header \<Rightarrow> error + (sctype \<times> int)" where
  "init_read h =
    (if magic h \<notin> set [magic_single, magic_dual] then Inl Nifti1FormatError
     else case getitem datatype2sctype (hdr_datatype h) of
         Inl e \<Rightarrow> Inl e
       | Inr tmpsctype \<Rightarrow>
           (case dim h of [] \<Rightarrow> Inl IndexError | ndim # _ \<Rightarrow> Inr (tmpsctype, ndim)))"

subsection \<open>Geometry\<close>

type_synonym matrix = "real list list"

definition zeros :: "nat \<Rightarrow> nat \<Rightarrow> matrix" where
  "zeros m n = replicate m (replicate n 0)"

text \<open>\<open>value[i] = N.array(row)\<close> on a matrix with four columns: numpy broadcasts a row
  of length one and rejects every other length but four.\<close>

definition set_row :: "matrix \<Rightarrow> nat \<Rightarrow> real list \<Rightarrow> error + matrix" where
  "set_row v i row =
    (if length row = 4 then Inr (v[i := row])
     else if length row = 1 then Inr (v[i := replicate 4 (hd row)])
     else Inl ValueError)"

text \<open>
  Modelled from the spec: \<open>quatern2mat\<close> of the module nifti1\_ext, which is not among the
  sources. The specification describes it as the unit-quaternion rotation of the three
  stored components, the fourth one reconstructed so that the norm is one and clamped to
  zero if the squares of the three sum to more than one, scaled per axis by the pixel
  spacings and by \<open>qfac\<close> on the third axis, with the offsets as translation.
\<close>

definition quatern2mat ::
  "real \<Rightarrow> real \<Rightarrow> real \<Rightarrow> real \<Rightarrow> real \<Rightarrow> real \<Rightarrow> real \<Rightarrow> real \<Rightarrow> real \<Rightarrow> real \<Rightarrow> matrix" where
  "quatern2mat b c d qx qy qz dx dy dz qfac =
    (let s = b * b + c * c + d * d;
         a = (if s > 1 then 0 else sqrt (1 - s));
         zs = dz * qfac
     in [[(a * a + b * b - c * c - d * d) * dx, 2 * (b * c - a * d) * dy, 2 * (b * d + a * c) * zs, qx],
         [2 * (b * c + a * d) * dx, (a * a + c * c - b * b - d * d) * dy, 2 * (c * d - a * b) * zs, qy],
         [2 * (b * d - a * c) * dx, 2 * (c * d + a * b) * dy, (a * a + d * d - c * c - b * b) * zs, qz],
         [0, 0, 0, 1]])"

text \<open>
  \<open>Nifti1.transform\<close>. The conversion from the quaternion is the parameter \<open>q2m\<close>, called
  with the arguments \<open>b c d qx qy qz dx dy dz qfac\<close> of the source.
\<close>

definition transform ::
  "(real \<Rightarrow> real \<Rightarrow> real \<Rightarrow> real \<Rightarrow> real \<Rightarrow> real \<Rightarrow> real \<Rightarrow> real \<Rightarrow> real \<Rightarrow> real \<Rightarrow> matrix)
     \<Rightarrow> nifti_header \<Rightarrow> error + matrix" where
  "transform q2m h =
    (case pixdim h of
       [] \<Rightarrow> Inl IndexError
     | qfac # _ \<Rightarrow>
         if qfac \<notin> set [- 1, 1] then Inl Nifti1FormatError
         else
           let value0 = zeros 4 4;
               value = value0[3 := (value0 ! 3)[3 := 1]]
           in if qform_code h > 0 then
                (if length (pixdim h) < 4 then Inl IndexError
                 else Inr (q2m (quatern_b h) (quatern_c h) (quatern_d h)
                             (qoffset_x h) (qoffset_y h) (qoffset_z h)
                             (pixdim h ! 1) (pixdim h ! 2) (pixdim h ! 3) qfac))
              else if sform_code h > 0 then
                (case set_row value 0 (srow_x h) of Inl e \<Rightarrow> Inl e
                 | Inr v0 \<Rightarrow>
                   (case set_row v0 1 (srow_y h) of Inl e \<Rightarrow> Inl e
                    | Inr v1 \<Rightarrow> set_row v1 2 (srow_z h)))
              else Inr value)"

subsection \<open>Scaling of the samples on reading\<close>

text \<open>A numpy array of decoded samples: its shape and its elements in storage order.\<close>

record ndarray =
  shape :: "nat list"
  elems :: "real list"

text \<open>The attributes of a Nifti1 object that \<open>postread\<close> uses.\<close>

record nifti1 =
  header :: nifti_header
  use_memmap :: bool

text \<open>\<open>Nifti1.postread\<close>\<close>

definition postread :: "nifti1 \<Rightarrow> ndarray \<Rightarrow> ndarray" where
  "postread s x =
    (if \<not> use_memmap s then x
     else if scl_slope (header s) \<noteq> 0 then
       x\<lparr>elems := map (\<lambda>v. v * scl_slope (header s) + scl_inter (header s)) (elems x)\<rparr>
     else x)"

subsection \<open>Scaling of the samples on writing\<close>

text \<open>
  \<open>self.dtype\<close> is a numpy dtype: a scalar type together with a byte order. The read
  branch of the constructor builds it as \<open>N.dtype(tmpsctype).newbyteorder(self.byteorder)\<close>
  with the byte order guessed from the file, the write branch with the byte order of the
  host. \<open>Swapped\<close> is a byte order that is not the host's.
\<close>

datatype byteorder = Native | Swapped

record dtype =
  dt_type :: sctype
  dt_order :: byteorder

text \<open>The number of bytes of one element.\<close>

fun itemsize :: "sctype \<Rightarrow> nat" where
  "itemsize uint8 = 1"
| "itemsize int8 = 1"
| "itemsize int16 = 2"
| "itemsize uint16 = 2"
| "itemsize int32 = 4"
| "itemsize uint32 = 4"
| "itemsize float32 = 4"
| "itemsize int64 = 8"
| "itemsize uint64 = 8"
| "itemsize float64 = 8"
| "itemsize complex64 = 8"
| "itemsize complex128 = 16"

text \<open>
  numpy's \<open>d == t\<close> for a dtype \<open>d\<close> and a scalar type \<open>t\<close>: \<open>t\<close> is taken as the dtype
  of that type in the byte order of the host, and two dtypes are equal if they have the same
  scalar type and the same byte order; the byte order of a one-byte type does not count.
\<close>

definition dtype_eq :: "dtype \<Rightarrow> sctype \<Rightarrow> bool" where
  "dtype_eq d t \<longleftrightarrow> dt_type d = t \<and> (dt_order d = Native \<or> itemsize t = 1)"

text \<open>\<open>d in ts\<close>: Python's list membership, which compares by \<open>==\<close>.\<close>

definition dtype_in :: "dtype \<Rightarrow> sctype list \<Rightarrow> bool" where
  "dtype_in d ts = list_ex (dtype_eq d) ts"

text \<open>\<open>N.sctypes['uint']\<close>\<close>

definition sctypes_uint :: "sctype list" where
  "sctypes_uint = [uint8, uint16, uint32, uint64]"

text \<open>
  What \<open>prewrite\<close> computes depends on numpy's arithmetic, and that depends on the element
  types of its operands: an array of integers wraps around where an array of floats does
  not, and a division by zero yields inf or nan where the reals have no value. The arrays
  \<open>'a\<close> and the numbers \<open>'v\<close> (Python numbers and numpy scalars) are therefore left
  open, and the operations of numpy and Python that \<open>prewrite\<close> uses are a parameter:
  \<open>x.shape\<close>, \<open>x - v\<close>, \<open>x / v\<close>, \<open>x.max()\<close> and \<open>x.min()\<close> (ValueError on an empty
  array), \<open>a > b\<close>, \<open>a != b\<close>, the builtin \<open>min(a, b)\<close>, the truth value of a number and
  the Python integer \<open>0\<close>. None of the arithmetic operations raises.
\<close>

record ('a, 'v) numpy =
  np_shape :: "'a \<Rightarrow> nat list"
  np_sub :: "'a \<Rightarrow> 'v \<Rightarrow> 'a"
  np_div :: "'a \<Rightarrow> 'v \<Rightarrow> 'a"
  np_max :: "'a \<Rightarrow> error + 'v"
  np_min :: "'a \<Rightarrow> error + 'v"
  np_gt :: "'v \<Rightarrow> 'v \<Rightarrow> bool"
  np_ne :: "'v \<Rightarrow> 'v \<Rightarrow> bool"
  py_min :: "'v \<Rightarrow> 'v \<Rightarrow> 'v"
  py_truth :: "'v \<Rightarrow> bool"
  py_zero :: 'v

text \<open>
  The calls that open the header file for update and rewrite the header; \<open>Write_header\<close>
  carries the values of \<open>scl_slope\<close> and \<open>scl_inter\<close> in the header that is written.
\<close>

datatype 'v io_event = Open_rb_plus | Write_header 'v 'v

text \<open>
  The attributes of a Nifti1 object that \<open>prewrite\<close> uses: the objects stored under
  \<open>self.header['scl_slope']\<close> and \<open>self.header['scl_inter']\<close>, \<open>self.use_memmap\<close>,
  \<open>self.dtype\<close>, the stored array \<open>self.data\<close>, the value of \<open>self[:]\<close> (the indexing
  method belongs to the ancestor class), and the log of the calls on the header file.
\<close>

record ('a, 'v) nifti1_writer =
  hdr_scl_slope :: 'v
  hdr_scl_inter :: 'v
  w_use_memmap :: bool
  w_dtype :: dtype
  w_data :: 'a
  w_self_all :: 'a
  w_io_log :: "'v io_event list"

text \<open>
  The test of line 463 of \<open>prewrite\<close>, on the array \<open>scaled_x\<close> computed before it:
  \<open>N.asarray(x).shape == self.data.shape or scaled_x.max() > self.data.max()\<close>.
  The second operand is evaluated only if the first is false.
\<close>

definition rescale_needed ::
  "('a, 'v) numpy \<Rightarrow> ('a, 'v) nifti1_writer \<Rightarrow> 'a \<Rightarrow> 'a \<Rightarrow> error + bool" where
  "rescale_needed np s x scaled_x =
    (if np_shape np x = np_shape np (w_data s) then Inr True
     else case np_max np scaled_x of Inl e \<Rightarrow> Inl e
       | Inr m \<Rightarrow> (case np_max np (w_data s) of Inl e \<Rightarrow> Inl e
           | Inr dm \<Rightarrow> Inr (np_gt np m dm)))"

text \<open>Lines 464 to 467: the minimum that the new intercept is taken from.\<close>

definition minval_of :: "('a, 'v) numpy \<Rightarrow> ('a, 'v) nifti1_writer \<Rightarrow> 'a \<Rightarrow> error + 'v" where
  "minval_of np s x =
    (if np_shape np x = np_shape np (w_data s) then np_min np x
     else case np_min np x of Inl e \<Rightarrow> Inl e
       | Inr xm \<Rightarrow> (case np_min np (w_self_all s) of Inl e \<Rightarrow> Inl e
           | Inr sm \<Rightarrow> Inr (py_min np xm sm)))"

text \<open>
  Lines 464 to 474: the new intercept. \<open>minval>0 and minval or 0\<close> is \<open>minval\<close> if
  \<open>minval > 0\<close> holds and \<open>minval\<close> is true, and \<open>0\<close> otherwise.
\<close>

definition candidate_intercept ::
  "('a, 'v) numpy \<Rightarrow> ('a, 'v) nifti1_writer \<Rightarrow> 'a \<Rightarrow> error + 'v" where
  "candidate_intercept np s x =
    (case minval_of np s x of Inl e \<Rightarrow> Inl e
     | Inr minval \<Rightarrow>
         if dtype_in (w_dtype s) sctypes_uint then Inr minval
         else Inr (if np_gt np minval (py_zero np) \<and> py_truth np minval then minval
                   else py_zero np))"

text \<open>
  Lines 464 to 489: the body of the \<open>if\<close>. \<open>scale_data\<close> (module utils) is a parameter.
\<close>

definition rescale ::
  "('a, 'v) numpy \<Rightarrow> ('a \<Rightarrow> dtype \<Rightarrow> 'v \<Rightarrow> 'v) \<Rightarrow> ('a, 'v) nifti1_writer \<Rightarrow> 'a \<Rightarrow> 'a
     \<Rightarrow> error + (('a, 'v) nifti1_writer \<times> 'a)" where
  "rescale np scale_data s x scaled_x =
    (case candidate_intercept np s x of Inl e \<Rightarrow> Inl e
     | Inr intercept \<Rightarrow>
         let scale = scale_data (np_sub np x intercept) (w_dtype s) (hdr_scl_slope s)
         in if np_ne np scale (hdr_scl_slope s) \<or> np_ne np intercept (hdr_scl_inter s) then
              let s' = s\<lparr>hdr_scl_inter := intercept, hdr_scl_slope := scale,
                          w_io_log := w_io_log s @ [Open_rb_plus, Write_header scale intercept]\<rparr>
              in Inr (s', np_div np (np_sub np x (hdr_scl_inter s')) (hdr_scl_slope s'))
            else Inr (s, scaled_x))"

text \<open>\<open>Nifti1.prewrite\<close>: the object after the call and the array returned.\<close>

definition prewrite ::
  "('a, 'v) numpy \<Rightarrow> ('a \<Rightarrow> dtype \<Rightarrow> 'v \<Rightarrow> 'v) \<Rightarrow> ('a, 'v) nifti1_writer \<Rightarrow> 'a
     \<Rightarrow> error + (('a, 'v) nifti1_writer \<times> 'a)" where
  "prewrite np scale_data s x =
    (if \<not> w_use_memmap s then Inr (s, x)
     else
       let scaled_x = np_div np (np_sub np x (hdr_scl_inter s)) (hdr_scl_slope s)
       in case rescale_needed np s x scaled_x of
            Inl e \<Rightarrow> Inl e
          | Inr True \<Rightarrow> rescale np scale_data s x scaled_x
          | Inr False \<Rightarrow> Inr (s, scaled_x))"

subsection \<open>Arrays of floats\<close>

text \<open>
  numpy's operations on arrays of 64-bit floats, to run \<open>prewrite\<close> on sample inputs: a
  float is a real number, plus or minus infinity, or nan. Rounding is left out and the two
  zeros of the floats are one: the zero slope is \<open>+0.0\<close>.
\<close>

datatype npfloat = Fin real | PInf | NInf | NaN

record farray =
  fshape :: "nat list"
  felems :: "npfloat list"

fun fsub :: "npfloat \<Rightarrow> npfloat \<Rightarrow> npfloat" where
  "fsub (Fin a) (Fin b) = Fin (a - b)"
| "fsub NaN _ = NaN"
| "fsub _ NaN = NaN"
| "fsub PInf PInf = NaN"
| "fsub NInf NInf = NaN"
| "fsub PInf _ = PInf"
| "fsub NInf _ = NInf"
| "fsub (Fin a) PInf = NInf"
| "fsub (Fin a) NInf = PInf"

fun fdiv :: "npfloat \<Rightarrow> npfloat \<Rightarrow> npfloat" where
  "fdiv (Fin a) (Fin b) =
     (if b \<noteq> 0 then Fin (a / b) else if 0 < a then PInf else if a < 0 then NInf else NaN)"
| "fdiv NaN _ = NaN"
| "fdiv _ NaN = NaN"
| "fdiv PInf (Fin b) = (if b < 0 then NInf else PInf)"
| "fdiv NInf (Fin b) = (if b < 0 then PInf else NInf)"
| "fdiv (Fin a) _ = Fin 0"
| "fdiv _ _ = NaN"

text \<open>\<open>a < b\<close>: false as soon as one side is nan.\<close>

fun flt :: "npfloat \<Rightarrow> npfloat \<Rightarrow> bool" where
  "flt (Fin a) (Fin b) = (a < b)"
| "flt NaN _ = False"
| "flt _ NaN = False"
| "flt _ NInf = False"
| "flt PInf _ = False"
| "flt _ _ = True"

text \<open>\<open>a == b\<close>: nan is equal to nothing.\<close>

definition feq :: "npfloat \<Rightarrow> npfloat \<Rightarrow> bool" where
  "feq a b \<longleftrightarrow> a \<noteq> NaN \<and> b \<noteq> NaN \<and> a = b"

text \<open>The reductions \<open>max\<close> and \<open>min\<close> return nan as soon as one element is nan.\<close>

definition fmax2 :: "npfloat \<Rightarrow> npfloat \<Rightarrow> npfloat" where
  "fmax2 a b = (if a = NaN \<or> b = NaN then NaN else if flt a b then b else a)"

definition fmin2 :: "npfloat \<Rightarrow> npfloat \<Rightarrow> npfloat" where
  "fmin2 a b = (if a = NaN \<or> b = NaN then NaN else if flt b a then b else a)"

definition famax :: "farray \<Rightarrow> error + npfloat" where
  "famax a = (case felems a of [] \<Rightarrow> Inl ValueError | e # es \<Rightarrow> Inr (foldl fmax2 e es))"

definition famin :: "farray \<Rightarrow> error + npfloat" where
  "famin a = (case felems a of [] \<Rightarrow> Inl ValueError | e # es \<Rightarrow> Inr (foldl fmin2 e es))"

definition np_float :: "(farray, npfloat) numpy" where
  "np_float =
    \<lparr>np_shape = fshape,
     np_sub = (\<lambda>a v. a\<lparr>felems := map (\<lambda>e. fsub e v) (felems a)\<rparr>),
     np_div = (\<lambda>a v. a\<lparr>felems := map (\<lambda>e. fdiv e v) (felems a)\<rparr>),
     np_max = famax,
     np_min = famin,
     np_gt = (\<lambda>a b. flt b a),
     np_ne = (\<lambda>a b. \<not> feq a b),
     py_min = (\<lambda>a b. if flt b a then b else a),
     py_truth = (\<lambda>a. a \<noteq> Fin 0),
     py_zero = Fin 0\<rparr>"

subsection \<open>Sample inputs\<close>

text \<open>
  The header of the end-to-end scenario of the specification: a 64 x 64 x 40 volume of
  32-bit floats with spacing 2, the identity quaternion and offsets (-64, -64, -40).
\<close>

definition hdr_example :: nifti_header where
  "hdr_example =
    \<lparr>magic = magic_single, hdr_datatype = 16, dim = [3, 64, 64, 40, 0, 0, 0, 0],
     pixdim = [1, 2, 2, 2, 0, 0, 0, 0], scl_slope = 1, scl_inter = 0,
     qform_code = 1, sform_code = 0,
     quatern_b = 0, quatern_c = 0, quatern_d = 0,
     qoffset_x = - 64, qoffset_y = - 64, qoffset_z = - 40,
     srow_x = [0, 0, 0, 0], srow_y = [0, 0, 0, 0], srow_z = [0, 0, 0, 0]\<rparr>"

text \<open>The same header with an sform as well: spacing 3 and no translation.\<close>

definition hdr_both :: nifti_header where
  "hdr_both =
    hdr_example\<lparr>sform_code := 1,
      srow_x := [3, 0, 0, 0], srow_y := [0, 3, 0, 0], srow_z := [0, 0, 3, 0]\<rparr>"

text \<open>An image opened with scaling enabled, for \<open>postread\<close>.\<close>

definition img_example :: nifti1 where
  "img_example = \<lparr>header = hdr_example\<lparr>hdr_datatype := 2\<rparr>, use_memmap = True\<rparr>"

text \<open>
  Modelled from the spec: \<open>scale_data\<close> of the module utils, which is not among the
  sources. The specification describes it as picking the smallest slope such that the
  maximum of the data divided by the slope fits within the representable range of the
  on-disk element type, with the previous slope as a floor. It is used only to run
  \<open>prewrite\<close> on the sample inputs below.
\<close>

definition type_max :: "sctype \<Rightarrow> real option" where
  "type_max t =
    (if t = uint8 then Some 255 else if t = int8 then Some 127
     else if t = int16 then Some 32767 else if t = uint16 then Some 65535
     else if t = int32 then Some 2147483647 else if t = uint32 then Some 4294967295
     else if t = int64 then Some 9223372036854775807
     else if t = uint64 then Some 18446744073709551615
     else None)"

definition scale_data :: "farray \<Rightarrow> dtype \<Rightarrow> npfloat \<Rightarrow> npfloat" where
  "scale_data d new_dtype default_scale =
    (case type_max (dt_type new_dtype) of
       None \<Rightarrow> default_scale
     | Some r \<Rightarrow>
         (case (famax d, default_scale) of
            (Inr (Fin m), Fin ds) \<Rightarrow> Fin (max ds (m / r))
          | _ \<Rightarrow> default_scale))"

text \<open>
  An open image of two unsigned bytes in the byte order of the host, stored as 0 and 255
  with slope 1 and intercept 0, and four arrays of floats to write: a full replacement
  with a negative minimum, a one-element slice above the stored maximum, one below it,
  and a negative one.
\<close>

definition wimg_example :: "(farray, npfloat) nifti1_writer" where
  "wimg_example =
    \<lparr>hdr_scl_slope = Fin 1, hdr_scl_inter = Fin 0, w_use_memmap = True,
     w_dtype = \<lparr>dt_type = uint8, dt_order = Native\<rparr>,
     w_data = \<lparr>fshape = [2], felems = [Fin 0, Fin 255]\<rparr>,
     w_self_all = \<lparr>fshape = [2], felems = [Fin 0, Fin 255]\<rparr>,
     w_io_log = []\<rparr>"

definition x_full :: farray where
  "x_full = \<lparr>fshape = [2], felems = [Fin (- 10), Fin 500]\<rparr>"

definition x_slice :: farray where
  "x_slice = \<lparr>fshape = [1], felems = [Fin 510]\<rparr>"

definition x_small :: farray where
  "x_small = \<lparr>fshape = [1], felems = [Fin 100]\<rparr>"

definition x_neg :: farray where
  "x_neg = \<lparr>fshape = [1], felems = [Fin (- 5)]\<rparr>"


section \<open>Properties\<close>

lemmas datatype_codes =
  UBYTE_def SHORT_def INTEGER_def FLOAT_def COMPLEX_def DOUBLE_def RGB_def INT8_def
  UINT16_def UINT32_def INT64_def UINT64_def FLOAT128_def COMPLEX128_def COMPLEX256_def

subsection \<open>Schema size\<close>

lemma calcsize_simps:
  "calcsize ''i'' = Inr 4" "calcsize ''h'' = Inr 2" "calcsize ''f'' = Inr 4"
  "calcsize ''c'' = Inr 1" "calcsize ''B'' = Inr 1"
  "calcsize ''8h'' = Inr 16" "calcsize ''8f'' = Inr 32" "calcsize ''4f'' = Inr 16"
  "calcsize ''10s'' = Inr 10" "calcsize ''18s'' = Inr 18" "calcsize ''80s'' = Inr 80"
  "calcsize ''24s'' = Inr 24" "calcsize ''16s'' = Inr 16" "calcsize ''4s'' = Inr 4"
  by (simp_all add: calcsize_def format_count_def py_int_def item_size_def digit_val_def)

lemma total_size_field_formats: "total_size field_formats = Inr 352"
  by (simp add: field_formats_def struct_formats_def calcsize_simps)

text \<open>
  Claim C2, as amended. The schema is an ordered catalogue of exactly 44 entries. The
  widths of the 43 entries before the last one sum to exactly 348 bytes, the value of
  \<open>HEADER_SIZE\<close>; the last entry is the field \<open>qfac\<close> with layout \<open>'f'\<close>.
\<close>

theorem schema_entries_and_size:
  "length struct_formats = 44 \<and>
   total_size (butlast field_formats) = Inr HEADER_SIZE \<and> HEADER_SIZE = 348 \<and>
   last struct_formats = (''qfac'', ''f'')"
  by (simp add: field_formats_def struct_formats_def calcsize_simps HEADER_SIZE_def)

text \<open>
  Claim C2 as stated (49 entries whose widths sum to 348 bytes) does not hold of
  \<open>struct_formats\<close>: it has 44 entries, and all of them together take 352 bytes.
\<close>

theorem schema_49_entries_348_bytes_false:
  "\<not> (length struct_formats = 49 \<and> total_size field_formats = Inr 348)"
  by (simp add: struct_formats_def)

subsection \<open>Element-type table\<close>

lemma datatype2sctype_iff:
  "datatype2sctype code = Some t \<longleftrightarrow> (code, t) \<in> set datatype2sctype_items"
  unfolding datatype2sctype_def dict_def
  by (auto simp: datatype2sctype_items_def datatype_codes split: if_splits)

lemma sctype2datatype_iff:
  "sctype2datatype t = Some code \<longleftrightarrow> (code, t) \<in> set datatype2sctype_items"
  unfolding sctype2datatype_def dict_def
  by (auto simp: datatype2sctype_items_def datatype_codes split: if_splits)

lemma getitem_datatype2sctype_missing:
  "code \<notin> set (map fst datatype2sctype_items) \<Longrightarrow> getitem datatype2sctype code = Inl KeyError"
proof -
  assume "code \<notin> set (map fst datatype2sctype_items)"
  then have "datatype2sctype code = None"
    using datatype2sctype_iff [of code] by (cases "datatype2sctype code") force+
  then show ?thesis by (simp add: getitem_def)
qed

lemma sctype_in_table: "\<exists>code. (code, t) \<in> set datatype2sctype_items"
  by (cases t) (auto simp: datatype2sctype_items_def)

text \<open>
  Claim C9. The element-type table maps two-way: a code is mapped to a scalar type exactly
  when the scalar type is mapped back to the code, every code of the table resolves to a
  type that resolves back to it, and every scalar type resolves to a code that resolves
  back to it. Resolving RGB (128), FLOAT128 (1536), COMPLEX256 (2048) or any code outside
  the table fails with the lookup error (KeyError, the specification's
  UnsupportedCodeError), also when a header with a recognised magic is opened for reading.
\<close>

theorem datatype_table_two_way:
  "(\<forall>code t. datatype2sctype code = Some t \<longleftrightarrow> sctype2datatype t = Some code) \<and>
   (\<forall>code \<in> set (map fst datatype2sctype_items).
      \<exists>t. getitem datatype2sctype code = Inr t \<and> getitem sctype2datatype t = Inr code) \<and>
   (\<forall>t. \<exists>code. getitem sctype2datatype t = Inr code \<and> getitem datatype2sctype code = Inr t) \<and>
   getitem datatype2sctype RGB = Inl KeyError \<and>
   getitem datatype2sctype FLOAT128 = Inl KeyError \<and>
   getitem datatype2sctype COMPLEX256 = Inl KeyError \<and>
   (\<forall>code. code \<notin> set (map fst datatype2sctype_items) \<longrightarrow>
      getitem datatype2sctype code = Inl KeyError) \<and>
   (\<forall>h. (magic h = magic_single \<or> magic h = magic_dual) \<and>
        hdr_datatype h \<notin> set (map fst datatype2sctype_items) \<longrightarrow>
      init_read h = Inl KeyError)"
proof -
  have two_way: "\<forall>code t. datatype2sctype code = Some t \<longleftrightarrow> sctype2datatype t = Some code"
    by (simp add: datatype2sctype_iff sctype2datatype_iff)
  have codes: "\<forall>code \<in> set (map fst datatype2sctype_items).
      \<exists>t. getitem datatype2sctype code = Inr t \<and> getitem sctype2datatype t = Inr code"
  proof
    fix code assume "code \<in> set (map fst datatype2sctype_items)"
    then obtain t where "(code, t) \<in> set datatype2sctype_items" by auto
    then have "datatype2sctype code = Some t" "sctype2datatype t = Some code"
      by (simp_all add: datatype2sctype_iff sctype2datatype_iff)
    then show "\<exists>t. getitem datatype2sctype code = Inr t \<and> getitem sctype2datatype t = Inr code"
      by (auto simp: getitem_def)
  qed
  have types: "\<forall>t. \<exists>code. getitem sctype2datatype t = Inr code \<and> getitem datatype2sctype code = Inr t"
  proof
    fix t
    obtain code where "(code, t) \<in> set datatype2sctype_items"
      using sctype_in_table by blast
    then have "datatype2sctype code = Some t" "sctype2datatype t = Some code"
      by (simp_all add: datatype2sctype_iff sctype2datatype_iff)
    then show "\<exists>code. getitem sctype2datatype t = Inr code \<and> getitem datatype2sctype code = Inr t"
      by (auto simp: getitem_def)
  qed
  have rgb: "getitem datatype2sctype RGB = Inl KeyError"
    by (rule getitem_datatype2sctype_missing) (simp add: datatype2sctype_items_def datatype_codes)
  have f128: "getitem datatype2sctype FLOAT128 = Inl KeyError"
    by (rule getitem_datatype2sctype_missing) (simp add: datatype2sctype_items_def datatype_codes)
  have c256: "getitem datatype2sctype COMPLEX256 = Inl KeyError"
    by (rule getitem_datatype2sctype_missing) (simp add: datatype2sctype_items_def datatype_codes)
  have missing: "\<forall>code. code \<notin> set (map fst datatype2sctype_items) \<longrightarrow>
      getitem datatype2sctype code = Inl KeyError"
    using getitem_datatype2sctype_missing by blast
  have ini: "\<forall>h. (magic h = magic_single \<or> magic h = magic_dual) \<and>
        hdr_datatype h \<notin> set (map fst datatype2sctype_items) \<longrightarrow> init_read h = Inl KeyError"
    using getitem_datatype2sctype_missing by (auto simp: init_read_def)
  from two_way codes types rgb f128 c256 missing ini show ?thesis by blast
qed

lemma getitem_examples:
  "getitem datatype2sctype 4 = Inr int16" "getitem sctype2datatype int16 = Inr 4"
  "getitem datatype2sctype 16 = Inr float32"
  by (simp_all add: getitem_def datatype2sctype_def sctype2datatype_def dict_def
      datatype2sctype_items_def datatype_codes)

theorem datatype_table_two_way_witness:
  "SHORT \<in> set (map fst datatype2sctype_items) \<and>
   getitem datatype2sctype SHORT = Inr int16 \<and> getitem sctype2datatype int16 = Inr SHORT \<and>
   7 \<notin> set (map fst datatype2sctype_items) \<and> getitem datatype2sctype 7 = Inl KeyError \<and>
   magic (hdr_example\<lparr>hdr_datatype := RGB\<rparr>) = magic_single \<and>
   init_read (hdr_example\<lparr>hdr_datatype := RGB\<rparr>) = Inl KeyError"
proof -
  have in_table: "SHORT \<in> set (map fst datatype2sctype_items)"
    by (simp add: datatype2sctype_items_def)
  have not_in_table: "7 \<notin> set (map fst datatype2sctype_items)"
    "hdr_datatype (hdr_example\<lparr>hdr_datatype := RGB\<rparr>) \<notin> set (map fst datatype2sctype_items)"
    by (simp_all add: datatype2sctype_items_def datatype_codes)
  have m: "magic (hdr_example\<lparr>hdr_datatype := RGB\<rparr>) = magic_single"
    by (simp add: hdr_example_def)
  from datatype_table_two_way in_table
  have "\<exists>t. getitem datatype2sctype SHORT = Inr t \<and> getitem sctype2datatype t = Inr SHORT"
    by blast
  then have short: "getitem datatype2sctype SHORT = Inr int16 \<and> getitem sctype2datatype int16 = Inr SHORT"
    using getitem_examples by (auto simp: SHORT_def)
  from datatype_table_two_way not_in_table(1)
  have seven: "getitem datatype2sctype 7 = Inl KeyError" by blast
  from datatype_table_two_way not_in_table(2) m
  have rgb: "init_read (hdr_example\<lparr>hdr_datatype := RGB\<rparr>) = Inl KeyError" by blast
  from in_table short not_in_table(1) seven m rgb show ?thesis by blast
qed

subsection \<open>Opening for reading\<close>

text \<open>
  Claim C4. A decoded header whose magic is neither \<open>'n+1\x00'\<close> nor \<open>'ni1\x00'\<close> makes
  the read branch of the constructor raise \<open>Nifti1FormatError\<close>, whatever its other fields
  are; a header that the constructor accepts has one of the two magic strings.
\<close>

theorem init_read_magic:
  "(magic h \<noteq> magic_single \<and> magic h \<noteq> magic_dual \<longrightarrow> init_read h = Inl Nifti1FormatError) \<and>
   (\<forall>r. init_read h = Inr r \<longrightarrow> magic h = magic_single \<or> magic h = magic_dual)"
  by (auto simp: init_read_def split: if_splits)

theorem init_read_magic_witness:
  "magic (hdr_example\<lparr>magic := [CHR ''n'', CHR ''+'', CHR ''2'', CHR 0x00]\<rparr>) \<noteq> magic_single \<and>
   magic (hdr_example\<lparr>magic := [CHR ''n'', CHR ''+'', CHR ''2'', CHR 0x00]\<rparr>) \<noteq> magic_dual \<and>
   init_read (hdr_example\<lparr>magic := [CHR ''n'', CHR ''+'', CHR ''2'', CHR 0x00]\<rparr>)
     = Inl Nifti1FormatError \<and>
   init_read hdr_example = Inr (float32, 3) \<and> magic hdr_example = magic_single"
proof -
  have bad: "magic (hdr_example\<lparr>magic := [CHR ''n'', CHR ''+'', CHR ''2'', CHR 0x00]\<rparr>) \<noteq> magic_single"
    "magic (hdr_example\<lparr>magic := [CHR ''n'', CHR ''+'', CHR ''2'', CHR 0x00]\<rparr>) \<noteq> magic_dual"
    by (simp_all add: magic_single_def magic_dual_def)
  have good: "init_read hdr_example = Inr (float32, 3)"
    by (simp add: init_read_def hdr_example_def getitem_examples)
  have m: "magic hdr_example = magic_single"
    by (simp add: hdr_example_def)
  from init_read_magic [of "hdr_example\<lparr>magic := [CHR ''n'', CHR ''+'', CHR ''2'', CHR 0x00]\<rparr>"] bad
  have "init_read (hdr_example\<lparr>magic := [CHR ''n'', CHR ''+'', CHR ''2'', CHR 0x00]\<rparr>)
     = Inl Nifti1FormatError"
    by blast
  with bad good m show ?thesis by blast
qed

subsection \<open>Geometry\<close>

text \<open>
  With an invalid \<open>qfac\<close> excluded and no positive qform code, a positive sform code makes
  \<open>transform\<close> return the three stored rows above the row (0, 0, 0, 1).
\<close>

lemma transform_sform:
  assumes "pixdim h = qfac # rest" and "qfac = 1 \<or> qfac = - 1"
    and "\<not> qform_code h > 0" and "sform_code h > 0"
    and "length (srow_x h) = 4" and "length (srow_y h) = 4" and "length (srow_z h) = 4"
  shows "transform q2m h = Inr [srow_x h, srow_y h, srow_z h, [0, 0, 0, 1]]"
  using assms by (auto simp: transform_def zeros_def set_row_def Let_def numeral_eq_Suc)

lemma quatern2mat_example:
  "quatern2mat 0 0 0 (- 64) (- 64) (- 40) 2 2 2 1
     = [[2, 0, 0, - 64], [0, 2, 0, - 64], [0, 0, 2, - 40], [0, 0, 0, 1]]"
  by (simp add: quatern2mat_def Let_def)

text \<open>
  Claim C1, as amended. For every header whose \<open>qfac\<close> (\<open>pixdim[0]\<close>) is exactly +1 or -1
  and in which both the qform code and the sform code are positive, \<open>transform\<close> returns
  the matrix \<open>Q\<close> that the quaternion conversion builds from \<open>quatern_b/c/d\<close>,
  \<open>qoffset_x/y/z\<close>, \<open>pixdim[1..3]\<close> and \<open>qfac\<close>; where that matrix differs from the
  matrix \<open>S\<close> of the three \<open>srow\<close> vectors, the result is not \<open>S\<close>.
\<close>

theorem transform_qform_precedence:
  assumes "pixdim h = qfac # dx # dy # dz # rest" and "qfac = 1 \<or> qfac = - 1"
    and "qform_code h > 0" and "sform_code h > 0"
    and "Q = q2m (quatern_b h) (quatern_c h) (quatern_d h)
               (qoffset_x h) (qoffset_y h) (qoffset_z h) dx dy dz qfac"
    and "S = [srow_x h, srow_y h, srow_z h, [0, 0, 0, 1]]"
    and "Q \<noteq> S"
  shows "transform q2m h = Inr Q \<and> transform q2m h \<noteq> Inr S"
  using assms by (auto simp: transform_def Let_def)

theorem transform_qform_precedence_witness:
  "0 < qform_code hdr_both \<and> 0 < sform_code hdr_both \<and>
   transform quatern2mat hdr_both
     = Inr [[2, 0, 0, - 64], [0, 2, 0, - 64], [0, 0, 2, - 40], [0, 0, 0, 1]] \<and>
   transform quatern2mat hdr_both
     \<noteq> Inr [[3, 0, 0, 0], [0, 3, 0, 0], [0, 0, 3, 0], [0, 0, 0, 1]]"
proof -
  have p: "pixdim hdr_both = 1 # 2 # 2 # 2 # [0, 0, 0, 0]"
    by (simp add: hdr_both_def hdr_example_def)
  have q: "(1::real) = 1 \<or> (1::real) = - 1" by simp
  have c: "qform_code hdr_both > 0" "sform_code hdr_both > 0"
    by (simp_all add: hdr_both_def hdr_example_def)
  have Q: "[[2, 0, 0, - 64], [0, 2, 0, - 64], [0, 0, 2, - 40], [0, 0, 0, 1]]
     = quatern2mat (quatern_b hdr_both) (quatern_c hdr_both) (quatern_d hdr_both)
         (qoffset_x hdr_both) (qoffset_y hdr_both) (qoffset_z hdr_both) 2 2 2 1"
    by (simp add: hdr_both_def hdr_example_def quatern2mat_example)
  have S: "[[3, 0, 0, 0], [0, 3, 0, 0], [0, 0, 3, 0], [0, 0, 0, 1]]
     = [srow_x hdr_both, srow_y hdr_both, srow_z hdr_both, [0, 0, 0, 1]]"
    by (simp add: hdr_both_def hdr_example_def)
  have ne: "[[2, 0, 0, - 64], [0, 2, 0, - 64], [0, 0, 2, - 40], [0, 0, 0, 1]]
     \<noteq> [[3, 0, 0, 0], [0, 3, 0, 0], [0, 0, 3, 0], [0, 0, 0, (1::real)]]"
    by simp
  from transform_qform_precedence [where ?q2m = quatern2mat and ?h = hdr_both, OF p q c Q S ne] c
  show ?thesis by blast
qed

text \<open>
  Claim C1 as stated fails on a header that stores \<open>pixdim[0] = 0\<close>: both codes are
  positive and the two encodings differ, yet \<open>transform\<close> raises \<open>Nifti1FormatError\<close>
  and returns no matrix.
\<close>

theorem transform_precedence_invalid_qfac:
  "0 < qform_code (hdr_both\<lparr>pixdim := [0, 2, 2, 2, 0, 0, 0, 0]\<rparr>) \<and>
   0 < sform_code (hdr_both\<lparr>pixdim := [0, 2, 2, 2, 0, 0, 0, 0]\<rparr>) \<and>
   quatern2mat 0 0 0 (- 64) (- 64) (- 40) 2 2 2 0
     \<noteq> [[3, 0, 0, 0], [0, 3, 0, 0], [0, 0, 3, 0], [0, 0, 0, 1]] \<and>
   transform quatern2mat (hdr_both\<lparr>pixdim := [0, 2, 2, 2, 0, 0, 0, 0]\<rparr>)
     = Inl Nifti1FormatError"
  by (simp add: transform_def hdr_both_def hdr_example_def quatern2mat_def Let_def)

text \<open>
  Claim C3. A header whose stored \<open>qfac\<close> (\<open>pixdim[0]\<close>) is neither +1 nor -1 makes
  \<open>transform\<close> raise \<open>Nifti1FormatError\<close>, whatever the qform and sform codes are.
\<close>

theorem transform_invalid_qfac:
  assumes "pixdim h = qfac # rest" and "qfac \<noteq> 1" and "qfac \<noteq> - 1"
  shows "transform q2m h = Inl Nifti1FormatError"
  using assms by (simp add: transform_def)

theorem transform_invalid_qfac_witness:
  "transform quatern2mat (hdr_both\<lparr>pixdim := [1 / 2, 2, 2, 2, 0, 0, 0, 0]\<rparr>)
     = Inl Nifti1FormatError \<and>
   transform quatern2mat (hdr_both\<lparr>qform_code := 0, pixdim := [1 / 2, 2, 2, 2, 0, 0, 0, 0]\<rparr>)
     = Inl Nifti1FormatError \<and>
   transform quatern2mat (hdr_example\<lparr>qform_code := 0, pixdim := [1 / 2, 2, 2, 2, 0, 0, 0, 0]\<rparr>)
     = Inl Nifti1FormatError"
proof -
  have q: "(1 / 2 :: real) \<noteq> 1" "(1 / 2 :: real) \<noteq> - 1" by simp_all
  have p1: "pixdim (hdr_both\<lparr>pixdim := [1 / 2, 2, 2, 2, 0, 0, 0, 0]\<rparr>)
      = 1 / 2 # [2, 2, 2, 0, 0, 0, 0]"
    by simp
  have p2: "pixdim (hdr_both\<lparr>qform_code := 0, pixdim := [1 / 2, 2, 2, 2, 0, 0, 0, 0]\<rparr>)
      = 1 / 2 # [2, 2, 2, 0, 0, 0, 0]"
    by simp
  have p3: "pixdim (hdr_example\<lparr>qform_code := 0, pixdim := [1 / 2, 2, 2, 2, 0, 0, 0, 0]\<rparr>)
      = 1 / 2 # [2, 2, 2, 0, 0, 0, 0]"
    by simp
  from transform_invalid_qfac [OF p1 q] transform_invalid_qfac [OF p2 q]
    transform_invalid_qfac [OF p3 q]
  show ?thesis by blast
qed

text \<open>
  Claim C8. For every header with a valid \<open>qfac\<close> in which neither the qform code nor the
  sform code is positive, \<open>transform\<close> returns the 4 x 4 matrix that is zero everywhere
  but for the 1 at the bottom right: the translation column is zero and no entry of the
  3 x 3 linear part is taken from \<open>pixdim\<close>.
\<close>

theorem transform_no_orientation:
  assumes "pixdim h = qfac # rest" and "qfac = 1 \<or> qfac = - 1"
    and "\<not> qform_code h > 0" and "\<not> sform_code h > 0"
  shows "transform q2m h = Inr [[0, 0, 0, 0], [0, 0, 0, 0], [0, 0, 0, 0], [0, 0, 0, 1]]"
  using assms by (auto simp: transform_def zeros_def Let_def numeral_eq_Suc)

theorem transform_no_orientation_witness:
  "pixdim (hdr_example\<lparr>qform_code := 0\<rparr>) = [1, 2, 2, 2, 0, 0, 0, 0] \<and>
   \<not> 0 < qform_code (hdr_example\<lparr>qform_code := 0\<rparr>) \<and>
   \<not> 0 < sform_code (hdr_example\<lparr>qform_code := 0\<rparr>) \<and>
   transform quatern2mat (hdr_example\<lparr>qform_code := 0\<rparr>)
     = Inr [[0, 0, 0, 0], [0, 0, 0, 0], [0, 0, 0, 0], [0, 0, 0, 1]]"
proof -
  have p: "pixdim (hdr_example\<lparr>qform_code := 0\<rparr>) = 1 # [2, 2, 2, 0, 0, 0, 0]"
    by (simp add: hdr_example_def)
  have q: "(1::real) = 1 \<or> (1::real) = - 1" by simp
  have c: "\<not> 0 < qform_code (hdr_example\<lparr>qform_code := 0\<rparr>)"
    "\<not> 0 < sform_code (hdr_example\<lparr>qform_code := 0\<rparr>)"
    by (simp_all add: hdr_example_def)
  from transform_no_orientation [OF p q c] p c show ?thesis by simp
qed

subsection \<open>Reading samples\<close>

text \<open>
  Claim C7. \<open>postread\<close> maps every element \<open>v\<close> of the raw array to
  \<open>v * scl_slope + scl_inter\<close> with the stored values, and returns the array unchanged
  exactly when the stored slope is zero or \<open>use_memmap\<close> is off.
\<close>

theorem postread_scaling:
  "postread s x =
    (if scl_slope (header s) = 0 \<or> \<not> use_memmap s then x
     else x\<lparr>elems := map (\<lambda>v. v * scl_slope (header s) + scl_inter (header s)) (elems x)\<rparr>)"
  by (simp add: postread_def)

theorem postread_scaling_witness:
  "postread (img_example\<lparr>header := (header img_example)\<lparr>scl_inter := - 10, scl_slope := 2\<rparr>\<rparr>)
      \<lparr>shape = [2], elems = [0, 255]\<rparr> = \<lparr>shape = [2], elems = [- 10, 500]\<rparr> \<and>
   postread (img_example\<lparr>header := (header img_example)\<lparr>scl_inter := - 10, scl_slope := 0\<rparr>\<rparr>)
      \<lparr>shape = [2], elems = [0, 255]\<rparr> = \<lparr>shape = [2], elems = [0, 255]\<rparr> \<and>
   postread (img_example\<lparr>header := (header img_example)\<lparr>scl_inter := - 10, scl_slope := 2\<rparr>,
                         use_memmap := False\<rparr>)
      \<lparr>shape = [2], elems = [0, 255]\<rparr> = \<lparr>shape = [2], elems = [0, 255]\<rparr>"
  using
    postread_scaling [of "img_example\<lparr>header := (header img_example)\<lparr>scl_inter := - 10, scl_slope := 2\<rparr>\<rparr>"
      "\<lparr>shape = [2], elems = [0, 255]\<rparr>"]
    postread_scaling [of "img_example\<lparr>header := (header img_example)\<lparr>scl_inter := - 10, scl_slope := 0\<rparr>\<rparr>"
      "\<lparr>shape = [2], elems = [0, 255]\<rparr>"]
    postread_scaling [of "img_example\<lparr>header := (header img_example)\<lparr>scl_inter := - 10, scl_slope := 2\<rparr>,
                         use_memmap := False\<rparr>"
      "\<lparr>shape = [2], elems = [0, 255]\<rparr>"]
  by (simp add: img_example_def)

subsection \<open>Writing samples\<close>

lemmas sample_defs =
  wimg_example_def x_full_def x_slice_def x_small_def x_neg_def

lemmas prewrite_defs =
  prewrite_def rescale_needed_def rescale_def candidate_intercept_def minval_of_def
  dtype_in_def dtype_eq_def sctypes_uint_def Let_def

lemmas float_defs =
  np_float_def famax_def famin_def fmax2_def fmin2_def feq_def scale_data_def type_max_def

text \<open>The runs of \<open>prewrite\<close> on the sample inputs.\<close>

lemma prewrite_full:
  "prewrite np_float scale_data wimg_example x_full =
     Inr (wimg_example\<lparr>hdr_scl_inter := Fin (- 10), hdr_scl_slope := Fin 2,
            w_io_log := [Open_rb_plus, Write_header (Fin 2) (Fin (- 10))]\<rparr>,
          \<lparr>fshape = [2], felems = [Fin 0, Fin 255]\<rparr>)"
  by (simp add: sample_defs prewrite_defs float_defs)

lemma prewrite_slice:
  "prewrite np_float scale_data wimg_example x_slice =
     Inr (wimg_example\<lparr>hdr_scl_inter := Fin 0, hdr_scl_slope := Fin 2,
            w_io_log := [Open_rb_plus, Write_header (Fin 2) (Fin 0)]\<rparr>,
          \<lparr>fshape = [1], felems = [Fin 255]\<rparr>)"
  by (simp add: sample_defs prewrite_defs float_defs)

lemma prewrite_small:
  "prewrite np_float scale_data wimg_example x_small = Inr (wimg_example, x_small)"
  by (simp add: sample_defs prewrite_defs float_defs)


text \<open>
  Claim C5, as amended. On a write call with scaling enabled (\<open>use_memmap\<close> on),
  \<open>prewrite\<close> enters the rescale (the body of the \<open>if\<close> of line 463) exactly when (a) the
  shape of the new array equals the shape of the stored data or (b) the maximum of the new
  data under the stored slope and intercept exceeds the maximum of the stored data. When
  neither holds it returns the new data under the stored slope and intercept and leaves the
  object as it was: no slope or intercept is computed and the header is not rewritten. This
  holds for whatever numpy's operations compute on the arrays at hand.
\<close>

theorem prewrite_transition:
  assumes "w_use_memmap s"
    and "scaled_x = np_div np (np_sub np x (hdr_scl_inter s)) (hdr_scl_slope s)"
  shows
    "(np_shape np x = np_shape np (w_data s) \<longrightarrow>
        prewrite np sd s x = rescale np sd s x scaled_x) \<and>
     (\<forall>m dm. np_shape np x \<noteq> np_shape np (w_data s) \<and>
        np_max np scaled_x = Inr m \<and> np_max np (w_data s) = Inr dm \<longrightarrow>
        prewrite np sd s x =
          (if np_gt np m dm then rescale np sd s x scaled_x else Inr (s, scaled_x))) \<and>
     (\<forall>s' r. prewrite np sd s x = Inr (s', r) \<and> s' \<noteq> s \<longrightarrow>
        np_shape np x = np_shape np (w_data s) \<or>
        (\<exists>m dm. np_max np scaled_x = Inr m \<and> np_max np (w_data s) = Inr dm \<and> np_gt np m dm))"
proof -
  have a: "prewrite np sd s x = rescale np sd s x scaled_x"
    if "np_shape np x = np_shape np (w_data s)"
    using assms that by (simp add: prewrite_def rescale_needed_def Let_def)
  have b: "prewrite np sd s x =
      (if np_gt np m dm then rescale np sd s x scaled_x else Inr (s, scaled_x))"
    if "np_shape np x \<noteq> np_shape np (w_data s)"
      and "np_max np scaled_x = Inr m" and "np_max np (w_data s) = Inr dm" for m dm
    using assms that by (simp add: prewrite_def rescale_needed_def Let_def)
  have c: "np_shape np x = np_shape np (w_data s) \<or>
      (\<exists>m dm. np_max np scaled_x = Inr m \<and> np_max np (w_data s) = Inr dm \<and> np_gt np m dm)"
    if "prewrite np sd s x = Inr (s', r)" and "s' \<noteq> s" for s' r
    using assms that
    by (auto simp: prewrite_def rescale_needed_def Let_def
        split: sum.splits if_splits bool.splits)
  from a b c show ?thesis by blast
qed

theorem prewrite_transition_witness:
  "prewrite np_float scale_data wimg_example x_full =
     rescale np_float scale_data wimg_example x_full \<lparr>fshape = [2], felems = [Fin (- 10), Fin 500]\<rparr> \<and>
   prewrite np_float scale_data wimg_example x_slice =
     rescale np_float scale_data wimg_example x_slice \<lparr>fshape = [1], felems = [Fin 510]\<rparr> \<and>
   prewrite np_float scale_data wimg_example x_small =
     Inr (wimg_example, \<lparr>fshape = [1], felems = [Fin 100]\<rparr>) \<and>
   prewrite np_float scale_data (wimg_example\<lparr>hdr_scl_slope := Fin 0\<rparr>) x_full =
     rescale np_float scale_data (wimg_example\<lparr>hdr_scl_slope := Fin 0\<rparr>) x_full
       \<lparr>fshape = [2], felems = [NInf, PInf]\<rparr>"
proof -
  have m: "w_use_memmap wimg_example" "w_use_memmap (wimg_example\<lparr>hdr_scl_slope := Fin 0\<rparr>)"
    by (simp_all add: sample_defs)
  have q_full: "\<lparr>fshape = [2], felems = [Fin (- 10), Fin 500]\<rparr> =
      np_div np_float (np_sub np_float x_full (hdr_scl_inter wimg_example))
        (hdr_scl_slope wimg_example)"
    by (simp add: sample_defs float_defs)
  have q_slice: "\<lparr>fshape = [1], felems = [Fin 510]\<rparr> =
      np_div np_float (np_sub np_float x_slice (hdr_scl_inter wimg_example))
        (hdr_scl_slope wimg_example)"
    by (simp add: sample_defs float_defs)
  have q_small: "\<lparr>fshape = [1], felems = [Fin 100]\<rparr> =
      np_div np_float (np_sub np_float x_small (hdr_scl_inter wimg_example))
        (hdr_scl_slope wimg_example)"
    by (simp add: sample_defs float_defs)
  have q_zero: "\<lparr>fshape = [2], felems = [NInf, PInf]\<rparr> =
      np_div np_float
        (np_sub np_float x_full (hdr_scl_inter (wimg_example\<lparr>hdr_scl_slope := Fin 0\<rparr>)))
        (hdr_scl_slope (wimg_example\<lparr>hdr_scl_slope := Fin 0\<rparr>))"
    by (simp add: sample_defs float_defs)
  have same: "np_shape np_float x_full = np_shape np_float (w_data wimg_example)"
    "np_shape np_float x_full = np_shape np_float (w_data (wimg_example\<lparr>hdr_scl_slope := Fin 0\<rparr>))"
    by (simp_all add: sample_defs float_defs)
  have other: "np_shape np_float x_slice \<noteq> np_shape np_float (w_data wimg_example)"
    "np_shape np_float x_small \<noteq> np_shape np_float (w_data wimg_example)"
    by (simp_all add: sample_defs float_defs)
  have mx: "np_max np_float \<lparr>fshape = [1], felems = [Fin 510]\<rparr> = Inr (Fin 510)"
    "np_max np_float \<lparr>fshape = [1], felems = [Fin 100]\<rparr> = Inr (Fin 100)"
    "np_max np_float (w_data wimg_example) = Inr (Fin 255)"
    by (simp_all add: sample_defs float_defs)
  have gt: "np_gt np_float (Fin 510) (Fin 255)" "\<not> np_gt np_float (Fin 100) (Fin 255)"
    by (simp_all add: float_defs)
  from prewrite_transition [where ?np = np_float and ?sd = scale_data, OF m(1) q_full] same(1)
  have full: "prewrite np_float scale_data wimg_example x_full =
     rescale np_float scale_data wimg_example x_full \<lparr>fshape = [2], felems = [Fin (- 10), Fin 500]\<rparr>"
    by blast
  from prewrite_transition [where ?np = np_float and ?sd = scale_data, OF m(1) q_slice]
    other(1) mx(1,3) gt(1)
  have slice: "prewrite np_float scale_data wimg_example x_slice =
     rescale np_float scale_data wimg_example x_slice \<lparr>fshape = [1], felems = [Fin 510]\<rparr>"
    by metis
  from prewrite_transition [where ?np = np_float and ?sd = scale_data, OF m(1) q_small]
    other(2) mx(2,3) gt(2)
  have small: "prewrite np_float scale_data wimg_example x_small =
     Inr (wimg_example, \<lparr>fshape = [1], felems = [Fin 100]\<rparr>)"
    by metis
  from prewrite_transition [where ?np = np_float and ?sd = scale_data, OF m(2) q_zero] same(2)
  have zero: "prewrite np_float scale_data (wimg_example\<lparr>hdr_scl_slope := Fin 0\<rparr>) x_full =
     rescale np_float scale_data (wimg_example\<lparr>hdr_scl_slope := Fin 0\<rparr>) x_full
       \<lparr>fshape = [2], felems = [NInf, PInf]\<rparr>"
    by blast
  from full slice small zero show ?thesis by blast
qed

text \<open>
  Claim C5 as stated fails when \<open>use_memmap\<close> is off: the new array has the shape of the
  stored data, so (a) holds, and the intercept that a rescale would store (-10) differs
  from the stored one (0), yet \<open>prewrite\<close> returns the array and the object unchanged.
\<close>

theorem prewrite_transition_memmap_off:
  "np_shape np_float x_full = np_shape np_float (w_data (wimg_example\<lparr>w_use_memmap := False\<rparr>)) \<and>
   candidate_intercept np_float (wimg_example\<lparr>w_use_memmap := False\<rparr>) x_full = Inr (Fin (- 10)) \<and>
   hdr_scl_inter (wimg_example\<lparr>w_use_memmap := False\<rparr>) = Fin 0 \<and>
   prewrite np_float scale_data (wimg_example\<lparr>w_use_memmap := False\<rparr>) x_full
     = Inr (wimg_example\<lparr>w_use_memmap := False\<rparr>, x_full)"
  by (simp add: sample_defs prewrite_defs float_defs)

text \<open>
  The test of line 471 holds exactly for the one-byte unsigned type and for the unsigned
  types in the byte order of the host.
\<close>

lemma dtype_in_sctypes_uint:
  "dtype_in d sctypes_uint \<longleftrightarrow>
     dt_type d = uint8 \<or>
     (dt_type d \<in> {uint16, uint32, uint64} \<and> dt_order d = Native)"
  by (auto simp: dtype_in_def dtype_eq_def sctypes_uint_def)

lemma candidate_intercept_host_order:
  assumes "minval_of np s x = Inr minval"
    and "dt_type (w_dtype s) \<in> {uint8, uint16, uint32, uint64}"
    and "dt_order (w_dtype s) = Native"
  shows "candidate_intercept np s x = Inr minval"
  using assms by (auto simp: candidate_intercept_def dtype_in_sctypes_uint)

lemma candidate_intercept_swapped:
  assumes "minval_of np s x = Inr minval"
    and "dt_type (w_dtype s) \<in> {uint16, uint32, uint64}"
    and "dt_order (w_dtype s) = Swapped"
  shows "candidate_intercept np s x =
    Inr (if np_gt np minval (py_zero np) \<and> py_truth np minval then minval else py_zero np)"
  using assms by (auto simp: candidate_intercept_def dtype_in_sctypes_uint)

text \<open>
  Claim C6 says that the candidate intercept of an unsigned on-disk element type is the
  minimum of the data, negative or not. \<open>prewrite\<close> does so for a file in the byte order of
  the host, and misses it for a 16-bit unsigned file in the other byte order: the new
  array has the shape of the stored data and the minimum -10, and the candidate is 0.
\<close>

theorem candidate_intercept_swapped_uint16:
  "np_min np_float x_full = Inr (Fin (- 10)) \<and>
   candidate_intercept np_float
     (wimg_example\<lparr>w_dtype := \<lparr>dt_type = uint16, dt_order = Native\<rparr>\<rparr>) x_full = Inr (Fin (- 10)) \<and>
   candidate_intercept np_float
     (wimg_example\<lparr>w_dtype := \<lparr>dt_type = uint16, dt_order = Swapped\<rparr>\<rparr>) x_full = Inr (Fin 0)"
  by (simp add: sample_defs candidate_intercept_def minval_of_def dtype_in_sctypes_uint float_defs)






end
